theory Spec2Isabelle
  imports Main
begin

section \<open>Data model of \<open>src/public/app.js\<close>\<close>

text \<open>
  The tracker keeps four module-level variables (lines 8--11): two running totals in
  milliseconds, the current state (\<open>null\<close>, \<open>'focus'\<close> or \<open>'distract'\<close>) and the
  instant at which that state began (\<open>null\<close> or a \<open>Date\<close>). Around them sit the
  signed-in user, the cloud subscription, the display ticker, the IndexedDB handle,
  and the three stores the code talks to: the IndexedDB object store keyed by date,
  the Firestore documents keyed by user and date, and the \<open>dataToMigrate\<close> slot of
  \<open>sessionStorage\<close>.

  JavaScript numbers holding millisecond counts are modelled as \<open>int\<close>; a \<open>Date\<close>
  is the number of milliseconds since the epoch that \<open>getTime()\<close> returns; \<open>null\<close>
  and \<open>undefined\<close> are \<open>None\<close>. An ISO-8601 string produced by \<open>toISOString()\<close> and
  read back by \<open>new Date(...)\<close> denotes the same millisecond, so a stored ISO string
  is represented by that instant.
\<close>

type_synonym dateKey = string
type_synonym uid = string
type_synonym recordRef = "uid \<times> dateKey"

text \<open>The value of the \<open>lastStateChangeTimestamp\<close> field of an object about to be written
  (lines 279--287): \<open>null\<close>, an ISO string, or Firestore's server-timestamp sentinel.\<close>

datatype tsField = TsNull | TsIso int | TsServer

text \<open>An object handed to a store: the result of \<open>getCurrentStateAsObject\<close> (lines 274--280,
  which has a \<open>date\<close>) or the \<open>migratedData\<close> literal (lines 118--123, which has none).\<close>

record stateObject =
  o_date :: "dateKey option"
  o_totalFocusedMs :: int
  o_totalDistractedMs :: int
  o_currentState :: "string option"
  o_lastStateChangeTimestamp :: tsField

text \<open>A record of the IndexedDB store \<open>dailyData\<close> (key path \<open>date\<close>).\<close>

record localRecord =
  l_date :: dateKey
  l_totalFocusedMs :: int
  l_totalDistractedMs :: int
  l_currentState :: "string option"
  l_lastStateChangeTimestamp :: "int option"

text \<open>A Firestore document \<open>users/{uid}/records/{date}\<close>. Any field may be missing, which is
  why the code reads the totals through \<open>|| 0\<close>.\<close>

record cloudRecord =
  c_date :: "dateKey option"
  c_totalFocusedMs :: "int option"
  c_totalDistractedMs :: "int option"
  c_currentState :: "string option"
  c_lastStateChangeTimestamp :: "int option"

text \<open>The JSON object staged under \<open>dataToMigrate\<close> (lines 182--186).\<close>

record payload =
  p_totalFocusedMs :: int
  p_totalDistractedMs :: int
  p_currentState :: "string option"

record world =
  totalFocusedMs :: int
  totalDistractedMs :: int
  currentState :: "string option"
  lastStateChangeTimestamp :: "int option"
  currentUser :: "uid option"
  firestoreListener :: "recordRef option"
  tickInterval :: bool
  db :: bool
  pendingLocalReads :: "dateKey list"
  localStore :: "dateKey \<rightharpoonup> localRecord"
  cloudStore :: "recordRef \<rightharpoonup> cloudRecord"
  dataToMigrate :: "payload option"

text \<open>
  \<open>firestoreListener\<close> is the document the active subscription listens to, if any, and
  \<open>tickInterval\<close> says whether the one-second display timer is running. \<open>db\<close> says whether
  the IndexedDB handle has been opened; \<open>localStore\<close> is what the object store holds.
  \<open>pendingLocalReads\<close> are the keys of the \<open>get\<close> requests that \<open>handleLoggedOutUser\<close>
  has issued (line 88) and whose callbacks have not run yet, oldest first.

  What the outside world contributes to a call is passed in explicitly. A \<open>clock\<close> gives
  the reading of the device clock at each place the code reads it, indexed by the source
  line of the read (\<open>Date.now()\<close>, \<open>new Date()\<close> or a call of \<open>getTodayKey()\<close>; the
  read that \<open>getCurrentStateAsObject\<close> makes on line 275 is indexed by the line that
  calls \<open>getCurrentStateAsObject\<close>). An operation carried out at one instant \<open>t\<close> has
  the clock \<open>\<lambda>_. t\<close>. A \<open>backend\<close> gives the time the Firestore server assigns to a
  server timestamp and whether the cloud write and the IndexedDB transaction of the call
  succeed.
\<close>

type_synonym clock = "nat \<Rightarrow> int"

record backend =
  serverNow :: int
  cloudWriteOk :: bool
  localTxOk :: bool

datatype error = CloudWriteFailed | LocalTxFailed

section \<open>JavaScript primitives used by the code\<close>

text \<open>Truthiness of a value that is \<open>null\<close> or a string: only a non-empty string is truthy.\<close>

definition truthy :: "string option \<Rightarrow> bool" where
  "truthy v = (case v of None \<Rightarrow> False | Some s \<Rightarrow> s \<noteq> [])"

text \<open>\<open>x || 0\<close> on a field that is missing or a number, and \<open>x || null\<close> on a field that is
  missing, \<open>null\<close> or a string.\<close>

definition orZero :: "int option \<Rightarrow> int" where
  "orZero v = (case v of None \<Rightarrow> 0 | Some n \<Rightarrow> n)"

definition orNull :: "string option \<Rightarrow> string option" where
  "orNull v = (if truthy v then v else None)"

text \<open>\<open>String(n)\<close> for an integer \<open>n\<close>, and \<open>padStart(k, '0')\<close>.\<close>

fun showNat :: "nat \<Rightarrow> string" where
  "showNat n = (if n < 10 then [''0123456789'' ! n]
                else showNat (n div 10) @ [''0123456789'' ! (n mod 10)])"

declare showNat.simps [simp del]

definition showInt :: "int \<Rightarrow> string" where
  "showInt i = (if i < 0 then CHR ''-'' # showNat (nat (- i)) else showNat (nat i))"

definition padStart :: "nat \<Rightarrow> string \<Rightarrow> string" where
  "padStart k s = replicate (k - length s) CHR ''0'' @ s"

section \<open>The operations\<close>

text \<open>Lines 258--263.\<close>

definition resetStateInMemory :: "world \<Rightarrow> world" where
  "resetStateInMemory w =
     w\<lparr>totalFocusedMs := 0, totalDistractedMs := 0,
       currentState := None, lastStateChangeTimestamp := None\<rparr>"

text \<open>Lines 265--269. The argument is clamped at zero before it is split into hours,
  minutes and seconds.\<close>

definition formatTime :: "int \<Rightarrow> string" where
  "formatTime ms0 =
     (let ms = (if ms0 < 0 then 0 else ms0);
          s = ms div 1000
      in padStart 2 (showInt (s div 3600)) @ '':'' @
         padStart 2 (showInt ((s mod 3600) div 60)) @ '':'' @
         padStart 2 (showInt (s mod 60)))"

text \<open>
  \<open>new Date().toISOString()\<close> renders an instant in UTC as \<open>YYYY-MM-DDTHH:mm:ss.sssZ\<close>
  (ECMA-262, Date Time String Format); years outside 0..9999 are written with a sign and
  six digits. \<open>civilFromDays\<close> turns a count of days since 1970-01-01 into the proleptic
  Gregorian year, month and day: it counts days from 0000-03-01, splits them into 400-year
  eras, centuries, four-year groups and years, and reads the month off the day of the
  March-based year.
\<close>

definition civilFromDays :: "int \<Rightarrow> int \<times> int \<times> int" where
  "civilFromDays z0 =
     (let z = z0 + 719468;
          era = z div 146097;
          doe = z mod 146097;
          c = min 3 (doe div 36524);
          dc = doe - c * 36524;
          q = dc div 1461;
          dq = dc mod 1461;
          a = min 3 (dq div 365);
          doy = dq - a * 365;
          y = era * 400 + c * 100 + q * 4 + a;
          mp = (5 * doy + 2) div 153;
          d = doy - (153 * mp + 2) div 5 + 1;
          m = (if mp < 10 then mp + 3 else mp - 9)
      in (if m \<le> 2 then y + 1 else y, m, d))"

definition isoYear :: "int \<Rightarrow> string" where
  "isoYear y =
     (if 0 \<le> y \<and> y \<le> 9999 then padStart 4 (showInt y)
      else (if y < 0 then ''-'' else ''+'') @ padStart 6 (showNat (nat \<bar>y\<bar>)))"

definition isoDate :: "int \<Rightarrow> string" where
  "isoDate t =
     (case civilFromDays (t div 86400000) of
        (y, m, d) \<Rightarrow> isoYear y @ ''-'' @ padStart 2 (showInt m) @ ''-'' @ padStart 2 (showInt d))"

definition isoTime :: "int \<Rightarrow> string" where
  "isoTime t =
     (let r = t mod 86400000
      in padStart 2 (showInt (r div 3600000)) @ '':'' @
         padStart 2 (showInt ((r div 60000) mod 60)) @ '':'' @
         padStart 2 (showInt ((r div 1000) mod 60)) @ ''.'' @
         padStart 3 (showInt (r mod 1000)))"

definition toISOString :: "int \<Rightarrow> string" where
  "toISOString t = isoDate t @ ''T'' @ isoTime t @ ''Z''"

text \<open>Line 271; the argument is the instant \<open>new Date()\<close> reads.\<close>

definition getTodayKey :: "int \<Rightarrow> dateKey" where
  "getTodayKey now = take 10 (toISOString now)"

text \<open>Lines 273--289; \<open>now\<close> is the clock reading of the \<open>getTodayKey()\<close> call on line 275.\<close>

definition getCurrentStateAsObject :: "bool \<Rightarrow> bool \<Rightarrow> int \<Rightarrow> world \<Rightarrow> stateObject" where
  "getCurrentStateAsObject forLocalDb forFirestore now w =
     (let state = \<lparr>o_date = Some (getTodayKey now),
                   o_totalFocusedMs = totalFocusedMs w,
                   o_totalDistractedMs = totalDistractedMs w,
                   o_currentState = currentState w,
                   o_lastStateChangeTimestamp = TsNull\<rparr>;
          state1 = (case lastStateChangeTimestamp w of
                      Some ts \<Rightarrow> if forLocalDb then state\<lparr>o_lastStateChangeTimestamp := TsIso ts\<rparr>
                                 else state
                    | None \<Rightarrow> state)
      in if forFirestore then state1\<lparr>o_lastStateChangeTimestamp := TsServer\<rparr> else state1)"

text \<open>
  The two stores. \<open>objectStore.put(obj)\<close> files the object under its \<open>date\<close>.
  \<open>recordRef.set(obj)\<close> replaces the document, \<open>recordRef.set(obj, {merge: true})\<close>
  overwrites only the fields \<open>obj\<close> has; in both the server replaces the sentinel by its
  own time. The code never puts a sentinel into IndexedDB nor an ISO string into
  Firestore; those two cases of the conversions are there for totality only.
\<close>

definition idbPut :: "stateObject \<Rightarrow> (dateKey \<rightharpoonup> localRecord) \<Rightarrow> (dateKey \<rightharpoonup> localRecord)" where
  "idbPut obj store =
     (case o_date obj of
        None \<Rightarrow> store
      | Some k \<Rightarrow>
          store(k \<mapsto> \<lparr>l_date = k,
                       l_totalFocusedMs = o_totalFocusedMs obj,
                       l_totalDistractedMs = o_totalDistractedMs obj,
                       l_currentState = o_currentState obj,
                       l_lastStateChangeTimestamp =
                         (case o_lastStateChangeTimestamp obj of
                            TsNull \<Rightarrow> None | TsIso ts \<Rightarrow> Some ts | TsServer \<Rightarrow> None)\<rparr>))"

definition firestoreSet :: "bool \<Rightarrow> int \<Rightarrow> stateObject \<Rightarrow> cloudRecord option \<Rightarrow> cloudRecord" where
  "firestoreSet merge srv obj old =
     \<lparr>c_date = (case o_date obj of
                  Some k \<Rightarrow> Some k
                | None \<Rightarrow> (case old of
                             Some r \<Rightarrow> if merge then c_date r else None
                           | None \<Rightarrow> None)),
      c_totalFocusedMs = Some (o_totalFocusedMs obj),
      c_totalDistractedMs = Some (o_totalDistractedMs obj),
      c_currentState = o_currentState obj,
      c_lastStateChangeTimestamp =
        (case o_lastStateChangeTimestamp obj of
           TsNull \<Rightarrow> None | TsIso ts \<Rightarrow> Some ts | TsServer \<Rightarrow> Some srv)\<rparr>"

text \<open>Lines 253--256.\<close>

definition startTick :: "world \<Rightarrow> world" where
  "startTick w = w\<lparr>tickInterval := True\<rparr>"

text \<open>
  Lines 148--167. The promise the function returns is rejected when the cloud write
  fails; the in-memory update of lines 149--156 has happened by then. The IndexedDB
  \<open>put\<close> has no handlers, so a failed transaction is dropped silently.
\<close>

definition handleStateChange ::
    "string option \<Rightarrow> clock \<Rightarrow> backend \<Rightarrow> world \<Rightarrow> error option \<times> world" where
  "handleStateChange newState clk env w =
     (let w1 = (case lastStateChangeTimestamp w of
                  Some ts \<Rightarrow>
                    if truthy (currentState w) then
                      (let elapsed = clk 150 - ts;
                           wf = (if currentState w = Some ''focus''
                                 then w\<lparr>totalFocusedMs := totalFocusedMs w + elapsed\<rparr> else w)
                       in if currentState wf = Some ''distract''
                          then wf\<lparr>totalDistractedMs := totalDistractedMs wf + elapsed\<rparr> else wf)
                    else w
                | None \<Rightarrow> w);
          w2 = w1\<lparr>currentState := newState, lastStateChangeTimestamp := Some (clk 156)\<rparr>
      in case currentUser w2 of
           Some u \<Rightarrow>
             if cloudWriteOk env then
               (let ref = (u, getTodayKey (clk 159))
                in (None, w2\<lparr>cloudStore := (cloudStore w2)
                      (ref \<mapsto> firestoreSet True (serverNow env)
                                 (getCurrentStateAsObject False True (clk 160) w2)
                                 (cloudStore w2 ref))\<rparr>))
             else (Some CloudWriteFailed, w2)
         | None \<Rightarrow>
             if \<not> db w2 then (None, w2)
             else if localTxOk env then
               (None, w2\<lparr>localStore :=
                           idbPut (getCurrentStateAsObject True False (clk 165) w2) (localStore w2)\<rparr>)
             else (None, w2))"

text \<open>A transition carried out at the single instant \<open>t\<close>, keeping the resulting state.\<close>

definition setStateAt :: "int \<Rightarrow> string option \<Rightarrow> backend \<Rightarrow> world \<Rightarrow> world" where
  "setStateAt t newState env w = snd (handleStateChange newState (\<lambda>_. t) env w)"

text \<open>
  Lines 218--234. \<open>displayTotals\<close> is the pair \<open>(displayFocus, displayDistract)\<close> that
  lines 219--226 compute; \<open>updateDisplay\<close> is what is then shown: the two formatted times
  and the state passed to \<open>setVisualState\<close>. The percentage of line 231 is formatted from a
  floating-point quotient and is left out.
\<close>

definition displayTotals :: "int \<Rightarrow> world \<Rightarrow> int \<times> int" where
  "displayTotals now w =
     (let displayFocus = totalFocusedMs w;
          displayDistract = totalDistractedMs w
      in case lastStateChangeTimestamp w of
           Some ts \<Rightarrow>
             if truthy (currentState w) then
               (let elapsed = now - ts
                in (if currentState w = Some ''focus'' then displayFocus + elapsed else displayFocus,
                    if currentState w = Some ''distract'' then displayDistract + elapsed
                    else displayDistract))
             else (displayFocus, displayDistract)
         | None \<Rightarrow> (displayFocus, displayDistract))"

definition updateDisplay :: "int \<Rightarrow> world \<Rightarrow> string \<times> string \<times> string option" where
  "updateDisplay now w =
     (case displayTotals now w of
        (displayFocus, displayDistract) \<Rightarrow>
          (formatTime displayFocus, formatTime displayDistract, currentState w))"

text \<open>
  Lines 79--103. \<open>handleLoggedOutUser\<close> itself only starts the ticker (no database) or
  issues the read of today's record (lines 86--88). The two callbacks of that request run
  later, when the request completes, and whatever has happened in between they do not
  look at \<open>currentUser\<close>: \<open>req.onsuccess\<close> (lines 89--98) with the record found, if any,
  and \<open>req.onerror\<close> (lines 99--102). The totals of a stored record are numbers, on which
  \<open>|| 0\<close> changes nothing.
\<close>

definition handleLoggedOutUser :: "clock \<Rightarrow> world \<Rightarrow> world" where
  "handleLoggedOutUser clk w =
     (if \<not> db w then startTick w
      else w\<lparr>pendingLocalReads := pendingLocalReads w @ [getTodayKey (clk 86)]\<rparr>)"

definition handleLoggedOutUser_onsuccess :: "localRecord option \<Rightarrow> world \<Rightarrow> world" where
  "handleLoggedOutUser_onsuccess result w =
     (case result of
        Some data \<Rightarrow>
          startTick (w\<lparr>totalFocusedMs := l_totalFocusedMs data,
                       totalDistractedMs := l_totalDistractedMs data,
                       currentState := orNull (l_currentState data),
                       lastStateChangeTimestamp := l_lastStateChangeTimestamp data\<rparr>)
      | None \<Rightarrow> startTick w)"

definition handleLoggedOutUser_onerror :: "world \<Rightarrow> world" where
  "handleLoggedOutUser_onerror w = startTick w"

text \<open>
  The oldest pending read completes: the request leaves the queue and its callback runs,
  \<open>onsuccess\<close> with what the store holds under the key at that moment, or \<open>onerror\<close>
  when the transaction fails.
\<close>

definition deliverLocalRead :: "backend \<Rightarrow> world \<Rightarrow> world" where
  "deliverLocalRead env w =
     (case pendingLocalReads w of
        [] \<Rightarrow> w
      | k # ks \<Rightarrow>
          (let w1 = w\<lparr>pendingLocalReads := ks\<rparr>
           in if localTxOk env then handleLoggedOutUser_onsuccess (localStore w1 k) w1
              else handleLoggedOutUser_onerror w1))"

text \<open>
  Lines 44--50 and 51--58: the two outcomes of the \<open>indexedDB.open\<close> request that
  \<open>initializeApp\<close> makes at page load. Both load the local data only when no user is
  signed in at that moment.
\<close>

definition initializeApp_onsuccess :: "clock \<Rightarrow> world \<Rightarrow> world" where
  "initializeApp_onsuccess clk w =
     (let w1 = w\<lparr>db := True\<rparr>
      in if currentUser w1 = None then handleLoggedOutUser clk w1 else w1)"

definition initializeApp_onerror :: "clock \<Rightarrow> world \<Rightarrow> world" where
  "initializeApp_onerror clk w =
     (if currentUser w = None then handleLoggedOutUser clk w else w)"

text \<open>Lines 298--306.\<close>

definition deleteLocalRecord :: "dateKey \<Rightarrow> backend \<Rightarrow> world \<Rightarrow> error option \<times> world" where
  "deleteLocalRecord k env w =
     (if \<not> db w then (None, w)
      else if localTxOk env then (None, w\<lparr>localStore := (localStore w)(k := None)\<rparr>)
      else (Some LocalTxFailed, w))"

text \<open>
  Lines 106--107 and 109: \<open>handleLoggedInUser\<close> subscribes to today's document of the user.
  The callback of lines 109--141 runs later, once per delivered snapshot; it is
  \<open>snapshotCallback\<close>, with the document reference it closes over and the delivered
  \<open>doc.data()\<close> as arguments. Its result says which branch ran and how it ended.
\<close>

definition handleLoggedInUser :: "uid \<Rightarrow> clock \<Rightarrow> world \<Rightarrow> world" where
  "handleLoggedInUser user clk w = w\<lparr>firestoreListener := Some (user, getTodayKey (clk 107))\<rparr>"

datatype snapshotResult =
  Migrated | MigrationFailed error | Adopted | Initialised | InitialWriteFailed

definition snapshotCallback ::
    "recordRef \<Rightarrow> cloudRecord option \<Rightarrow> clock \<Rightarrow> backend \<Rightarrow> world \<Rightarrow> snapshotResult \<times> world" where
  "snapshotCallback ref serverData clk env w =
     (case dataToMigrate w of
        Some dtm \<Rightarrow>
          (let w1 = w\<lparr>dataToMigrate := None\<rparr>;
               migratedData =
                 \<lparr>o_date = None,
                  o_totalFocusedMs =
                    orZero (case serverData of None \<Rightarrow> None | Some sd \<Rightarrow> c_totalFocusedMs sd)
                      + p_totalFocusedMs dtm,
                  o_totalDistractedMs =
                    orZero (case serverData of None \<Rightarrow> None | Some sd \<Rightarrow> c_totalDistractedMs sd)
                      + p_totalDistractedMs dtm,
                  o_currentState = p_currentState dtm,
                  o_lastStateChangeTimestamp = TsServer\<rparr>
           in if cloudWriteOk env then
                (let w2 = w1\<lparr>cloudStore := (cloudStore w1)
                             (ref \<mapsto> firestoreSet True (serverNow env) migratedData
                                        (cloudStore w1 ref))\<rparr>
                 in case deleteLocalRecord (getTodayKey (clk 126)) env w2 of
                      (None, w3) \<Rightarrow> (Migrated, w3)
                    | (Some e, w3) \<Rightarrow> (MigrationFailed e, w3))
              else (MigrationFailed CloudWriteFailed, w1))
      | None \<Rightarrow>
          (case serverData of
             Some sd \<Rightarrow>
               (Adopted,
                startTick (w\<lparr>totalFocusedMs := orZero (c_totalFocusedMs sd),
                             totalDistractedMs := orZero (c_totalDistractedMs sd),
                             currentState := orNull (c_currentState sd),
                             lastStateChangeTimestamp := c_lastStateChangeTimestamp sd\<rparr>))
           | None \<Rightarrow>
               if cloudWriteOk env then
                 (Initialised,
                  startTick (w\<lparr>cloudStore := (cloudStore w)
                      (ref \<mapsto> firestoreSet False (serverNow env)
                                 (getCurrentStateAsObject False True (clk 136) w) None)\<rparr>))
               else (InitialWriteFailed, w)))"

text \<open>Lines 62--76. Calling the stored unsubscribe function ends the subscription, and
  \<open>clearInterval\<close> stops the ticker. Nothing here cancels a pending local read.\<close>

definition handleAuthStateChange :: "uid option \<Rightarrow> clock \<Rightarrow> world \<Rightarrow> world" where
  "handleAuthStateChange user clk w =
     (let w1 = w\<lparr>firestoreListener := None\<rparr>;
          w2 = w1\<lparr>tickInterval := False\<rparr>;
          w3 = resetStateInMemory w2;
          w4 = w3\<lparr>currentUser := user\<rparr>
      in case user of
           Some u \<Rightarrow> handleLoggedInUser u clk w4
         | None \<Rightarrow> handleLoggedOutUser clk w4)"

text \<open>
  Lines 170--191, the part of the sign-in click handler that runs before the sign-in
  flow is handed to the authentication provider. A failed read is caught and logged.
\<close>

definition signInClick :: "clock \<Rightarrow> backend \<Rightarrow> world \<Rightarrow> world" where
  "signInClick clk env w =
     (if db w then
        (if localTxOk env then
           (case localStore w (getTodayKey (clk 176)) of
              Some localData \<Rightarrow>
                if l_totalFocusedMs localData > 0 \<or> l_totalDistractedMs localData > 0 then
                  w\<lparr>dataToMigrate :=
                      Some \<lparr>p_totalFocusedMs = l_totalFocusedMs localData,
                            p_totalDistractedMs = l_totalDistractedMs localData,
                            p_currentState = l_currentState localData\<rparr>\<rparr>
                else w
            | None \<Rightarrow> w)
         else w)
      else w)"

section \<open>Runs of the tracker\<close>

text \<open>
  The state when the script has just been loaded (lines 5--15), with nothing in any
  store, and a backend on which every write succeeds.
\<close>

definition initialWorld :: world where
  "initialWorld =
     \<lparr>totalFocusedMs = 0, totalDistractedMs = 0, currentState = None,
      lastStateChangeTimestamp = None, currentUser = None, firestoreListener = None,
      tickInterval = False, db = False, pendingLocalReads = [], localStore = Map.empty,
      cloudStore = Map.empty, dataToMigrate = None\<rparr>"

definition reliable :: backend where
  "reliable = \<lparr>serverNow = 0, cloudWriteOk = True, localTxOk = True\<rparr>"

text \<open>A sequence of button presses, each with its instant, its new state and the backend
  behaviour it meets.\<close>

fun runTransitions :: "(int \<times> string option \<times> backend) list \<Rightarrow> world \<Rightarrow> world" where
  "runTransitions [] w = w"
| "runTransitions ((t, newState, env) # trs) w = runTransitions trs (setStateAt t newState env w)"

text \<open>The two states in which time is counted.\<close>

definition active :: "string option \<Rightarrow> bool" where
  "active st = (st = Some ''focus'' \<or> st = Some ''distract'')"

text \<open>
  The clock is never behind the stored timestamp along a run: each transition happens at
  or after the instant the previous one stamped (and at or after the timestamp the run
  starts with, if there is one).
\<close>

definition notBefore :: "int option \<Rightarrow> int \<Rightarrow> bool" where
  "notBefore ts t = (case ts of None \<Rightarrow> True | Some t0 \<Rightarrow> t0 \<le> t)"

fun clockNeverBehind :: "int option \<Rightarrow> (int \<times> string option \<times> backend) list \<Rightarrow> bool" where
  "clockNeverBehind ts [] = True"
| "clockNeverBehind ts ((t, newState, env) # trs) =
     (notBefore ts t \<and> clockNeverBehind (Some t) trs)"

text \<open>One direction of the record invariant: a state that is not \<open>null\<close> has a timestamp.\<close>

definition stampedWhenActive :: "string option \<Rightarrow> int option \<Rightarrow> bool" where
  "stampedWhenActive st ts = (st = None \<or> ts \<noteq> None)"

text \<open>The snapshot callback took the migration branch (lines 114--128).\<close>

definition migrationBranch :: "snapshotResult \<Rightarrow> bool" where
  "migrationBranch r = (case r of Migrated \<Rightarrow> True | MigrationFailed e \<Rightarrow> True | _ \<Rightarrow> False)"

text \<open>Today's local record is missing or has no total above zero.\<close>

definition noPositiveTotal :: "localRecord option \<Rightarrow> bool" where
  "noPositiveTotal r =
     (case r of None \<Rightarrow> True
      | Some localData \<Rightarrow> l_totalFocusedMs localData \<le> 0 \<and> l_totalDistractedMs localData \<le> 0)"

text \<open>
  The date key as the specification words it: the calendar day \<open>YYYY-MM-DD\<close> of the
  instant in a time zone whose local time is \<open>offsetMinutes\<close> ahead of UTC.
\<close>

definition specLocalDateKey :: "int \<Rightarrow> int \<Rightarrow> dateKey" where
  "specLocalDateKey offsetMinutes now =
     (case civilFromDays ((now + offsetMinutes * 60000) div 86400000) of
        (y, m, d) \<Rightarrow>
          padStart 4 (showInt y) @ ''-'' @ padStart 2 (showInt m) @ ''-'' @ padStart 2 (showInt d))"

subsection \<open>Sample data\<close>

text \<open>
  The instant 2024-01-02T04:30:00Z and the same time a day later, local records and a
  cloud record for the first day, a staged payload, and four worlds: one signed in with
  the payload staged, two signed out with a local record that has, or has not, counted
  any time, and one in which the page has just been loaded while IndexedDB still holds
  what an anonymous session counted earlier that day.
\<close>

definition sampleInstant :: int where
  "sampleInstant = 1704169800000"

definition nextDayInstant :: int where
  "nextDayInstant = 1704256200000"

definition sampleLocal :: localRecord where
  "sampleLocal = \<lparr>l_date = ''2024-01-02'', l_totalFocusedMs = 50, l_totalDistractedMs = 0,
                   l_currentState = Some ''focus'',
                   l_lastStateChangeTimestamp = Some 1704169700000\<rparr>"

definition idleLocal :: localRecord where
  "idleLocal = \<lparr>l_date = ''2024-01-02'', l_totalFocusedMs = 0, l_totalDistractedMs = 0,
                 l_currentState = None, l_lastStateChangeTimestamp = Some 1704169700000\<rparr>"

definition sampleCloud :: cloudRecord where
  "sampleCloud = \<lparr>c_date = Some ''2024-01-02'', c_totalFocusedMs = Some 100,
                   c_totalDistractedMs = Some 200, c_currentState = Some ''distract'',
                   c_lastStateChangeTimestamp = Some 1704160000000\<rparr>"

definition samplePayload :: payload where
  "samplePayload = \<lparr>p_totalFocusedMs = 50, p_totalDistractedMs = 0,
                     p_currentState = Some ''focus''\<rparr>"

definition stagedWorld :: world where
  "stagedWorld = initialWorld\<lparr>currentUser := Some ''alice'', db := True,
                   localStore := [''2024-01-02'' \<mapsto> sampleLocal],
                   cloudStore := [(''alice'', ''2024-01-02'') \<mapsto> sampleCloud],
                   dataToMigrate := Some samplePayload\<rparr>"

definition leftoverLocal :: localRecord where
  "leftoverLocal = \<lparr>l_date = ''2024-01-02'', l_totalFocusedMs = 120000,
                     l_totalDistractedMs = 45000, l_currentState = Some ''focus'',
                     l_lastStateChangeTimestamp = Some 1704169700000\<rparr>"

definition pageLoadWorld :: world where
  "pageLoadWorld = initialWorld\<lparr>localStore := [''2024-01-02'' \<mapsto> leftoverLocal]\<rparr>"

definition signedOutWorld :: world where
  "signedOutWorld = initialWorld\<lparr>db := True, localStore := [''2024-01-02'' \<mapsto> sampleLocal]\<rparr>"

definition idleWorld :: world where
  "idleWorld = initialWorld\<lparr>db := True, localStore := [''2024-01-02'' \<mapsto> idleLocal]\<rparr>"

section \<open>The in-memory effect of a transition\<close>

lemma truthy_simps:
  "truthy (Some ''focus'')" "truthy (Some ''distract'')" "\<not> truthy None"
  by (simp_all add: truthy_def)

text \<open>Whatever happens to the write, the four session variables after
  \<open>handleStateChange\<close> are these.\<close>

lemma handleStateChange_session:
  "totalFocusedMs (snd (handleStateChange ns clk env w)) =
     (case lastStateChangeTimestamp w of
        Some ts \<Rightarrow> if currentState w = Some ''focus''
                   then totalFocusedMs w + (clk 150 - ts) else totalFocusedMs w
      | None \<Rightarrow> totalFocusedMs w)"
  "totalDistractedMs (snd (handleStateChange ns clk env w)) =
     (case lastStateChangeTimestamp w of
        Some ts \<Rightarrow> if currentState w = Some ''distract''
                   then totalDistractedMs w + (clk 150 - ts) else totalDistractedMs w
      | None \<Rightarrow> totalDistractedMs w)"
  "currentState (snd (handleStateChange ns clk env w)) = ns"
  "lastStateChangeTimestamp (snd (handleStateChange ns clk env w)) = Some (clk 156)"
  by (simp_all add: handleStateChange_def Let_def truthy_def split: option.split)

lemmas setStateAt_session =
  handleStateChange_session [of _ "\<lambda>_. t" for t, folded setStateAt_def]

lemma setStateAt_banks_interval:
  assumes "active (currentState w)" and "lastStateChangeTimestamp w = Some t0"
  shows "totalFocusedMs (setStateAt t ns env w) + totalDistractedMs (setStateAt t ns env w) =
           totalFocusedMs w + totalDistractedMs w + (t - t0)"
  using assms by (auto simp: setStateAt_session active_def)

lemma runTransitions_active:
  assumes "active (currentState w)" and "lastStateChangeTimestamp w = Some t0"
    and "trs \<noteq> []" and "list_all (\<lambda>tr. active (fst (snd tr))) (butlast trs)"
  shows "totalFocusedMs (runTransitions trs w) + totalDistractedMs (runTransitions trs w) =
           totalFocusedMs w + totalDistractedMs w + (fst (last trs) - t0)"
  using assms
proof (induction trs arbitrary: w t0)
  case Nil
  then show ?case by simp
next
  case (Cons tr trs)
  obtain t ns env where tr: "tr = (t, ns, env)" by (cases tr)
  let ?w = "setStateAt t ns env w"
  have step: "totalFocusedMs ?w + totalDistractedMs ?w =
                totalFocusedMs w + totalDistractedMs w + (t - t0)"
    using Cons.prems(1,2) by (rule setStateAt_banks_interval)
  show ?case
  proof (cases "trs = []")
    case True
    with step tr show ?thesis by simp
  next
    case False
    with Cons.prems(4) tr have ns: "active ns"
      and rest: "list_all (\<lambda>tr. active (fst (snd tr))) (butlast trs)"
      by simp_all
    have "totalFocusedMs (runTransitions trs ?w) + totalDistractedMs (runTransitions trs ?w) =
            totalFocusedMs ?w + totalDistractedMs ?w + (fst (last trs) - t)"
      by (rule Cons.IH) (use ns rest False in \<open>simp_all add: setStateAt_session\<close>)
    with step tr False show ?thesis by simp
  qed
qed

section \<open>The snapshot callback, the login and the two serialisations\<close>

text \<open>The callback with nothing staged, and with a payload staged.\<close>

lemma snapshotCallback_plain:
  assumes "dataToMigrate w = None"
  shows "snapshotCallback ref (Some sd) clk env w =
           (Adopted, startTick (w\<lparr>totalFocusedMs := orZero (c_totalFocusedMs sd),
                             totalDistractedMs := orZero (c_totalDistractedMs sd),
                             currentState := orNull (c_currentState sd),
                             lastStateChangeTimestamp := c_lastStateChangeTimestamp sd\<rparr>))"
    and "snapshotCallback ref None clk env w =
           (if cloudWriteOk env then
              (Initialised,
               startTick (w\<lparr>cloudStore := (cloudStore w)
                   (ref \<mapsto> firestoreSet False (serverNow env)
                              (getCurrentStateAsObject False True (clk 136) w) None)\<rparr>))
            else (InitialWriteFailed, w))"
  using assms by (simp_all add: snapshotCallback_def)

lemma snapshotCallback_staged:
  assumes "dataToMigrate w = Some p"
  shows "dataToMigrate (snd (snapshotCallback ref sd clk env w)) = None"
    and "migrationBranch (fst (snapshotCallback ref sd clk env w))"
    and "\<not> cloudWriteOk env \<Longrightarrow>
           snapshotCallback ref sd clk env w =
             (MigrationFailed CloudWriteFailed, w\<lparr>dataToMigrate := None\<rparr>)"
  using assms
  by (simp_all add: snapshotCallback_def deleteLocalRecord_def migrationBranch_def Let_def)

text \<open>The migration branch runs exactly when a payload is staged.\<close>

lemma snapshotCallback_branch:
  "migrationBranch (fst (snapshotCallback ref sd clk env w)) = (dataToMigrate w \<noteq> None)"
proof (cases "dataToMigrate w")
  case None
  then show ?thesis
    by (cases sd) (simp_all add: snapshotCallback_plain migrationBranch_def)
next
  case (Some p)
  then show ?thesis
    using snapshotCallback_staged(2) [of w p] by simp
qed

lemma handleAuthStateChange_login:
  "handleAuthStateChange (Some u) clk w =
     w\<lparr>totalFocusedMs := 0, totalDistractedMs := 0, currentState := None,
       lastStateChangeTimestamp := None, currentUser := Some u,
       firestoreListener := Some (u, getTodayKey (clk 107)), tickInterval := False\<rparr>"
  by (simp add: handleAuthStateChange_def handleLoggedInUser_def resetStateInMemory_def)

text \<open>What the two serialisations of the session store.\<close>

lemma serialize_local:
  "idbPut (getCurrentStateAsObject True False now w) store (getTodayKey now) =
     Some \<lparr>l_date = getTodayKey now, l_totalFocusedMs = totalFocusedMs w,
           l_totalDistractedMs = totalDistractedMs w, l_currentState = currentState w,
           l_lastStateChangeTimestamp = lastStateChangeTimestamp w\<rparr>"
  by (cases "lastStateChangeTimestamp w") (simp_all add: idbPut_def getCurrentStateAsObject_def)

lemma serialize_cloud:
  "firestoreSet merge srv (getCurrentStateAsObject False True now w) old =
     \<lparr>c_date = Some (getTodayKey now), c_totalFocusedMs = Some (totalFocusedMs w),
      c_totalDistractedMs = Some (totalDistractedMs w), c_currentState = currentState w,
      c_lastStateChangeTimestamp = Some srv\<rparr>"
  by (cases "lastStateChangeTimestamp w")
     (simp_all add: firestoreSet_def getCurrentStateAsObject_def)

section \<open>The model at sample inputs\<close>

lemma toISOString_samples:
  "toISOString 0 = ''1970-01-01T00:00:00.000Z''"
  "toISOString (- 1) = ''1969-12-31T23:59:59.999Z''"
  "toISOString 951868799999 = ''2000-02-29T23:59:59.999Z''"
  "toISOString 1704169800000 = ''2024-01-02T04:30:00.000Z''"
  by code_simp+

lemma formatTime_samples:
  "formatTime 60000 = ''00:01:00''" "formatTime 30000 = ''00:00:30''"
  "formatTime 360000000 = ''100:00:00''"
  by code_simp+

text \<open>Focus at 0 and distract at 60000, looked at by the ticker at 90000.\<close>

lemma scenario_display:
  "updateDisplay 90000
     (runTransitions [(0, Some ''focus'', reliable), (60000, Some ''distract'', reliable)]
        initialWorld) = (''00:01:00'', ''00:00:30'', Some ''distract'')"
  by (simp add: updateDisplay_def displayTotals_def setStateAt_session initialWorld_def
        truthy_simps formatTime_samples)

lemma getTodayKey_sample: "getTodayKey 1704169800000 = ''2024-01-02''"
  by code_simp

lemma stagedWorld_simps:
  "dataToMigrate stagedWorld = Some samplePayload" "db stagedWorld"
  "cloudStore stagedWorld (''alice'', ''2024-01-02'') = Some sampleCloud"
  "localStore stagedWorld ''2024-01-02'' = Some sampleLocal"
  by (simp_all add: stagedWorld_def)

section \<open>Conservation of time\<close>

text \<open>
  Claim C1 says that over any transitions at \<open>t0 < t1 < ... < tn\<close>, starting from the
  empty record, the two totals add up to \<open>tn - t0\<close>. The code counts no time while the
  state is \<open>null\<close>: a stop in the middle of the sequence leaves a gap. Focus at 0, stop at
  10 and focus again at 20 give a sum of 10, not 20.
\<close>

theorem conservation_counterexample:
  "totalFocusedMs (runTransitions [(0, Some ''focus'', reliable), (10, None, reliable),
                                   (20, Some ''focus'', reliable)] initialWorld) +
   totalDistractedMs (runTransitions [(0, Some ''focus'', reliable), (10, None, reliable),
                                      (20, Some ''focus'', reliable)] initialWorld) = 10
   \<and> (10 :: int) \<noteq> 20 - 0"
  by (simp add: setStateAt_session initialWorld_def)

text \<open>
  Claim C1, amended: when every transition but the last enters \<open>focus\<close> or \<open>distract\<close>,
  the totals after the last transition add up to the time between the first and the last
  transition. The starting record is the empty one, the timestamps are arbitrary (so in
  particular strictly increasing ones are covered), and the outcome of the writes plays
  no part.
\<close>

theorem conservation_without_stops:
  assumes "trs \<noteq> []" and "list_all (\<lambda>tr. active (fst (snd tr))) (butlast trs)"
  shows "totalFocusedMs (runTransitions trs (resetStateInMemory w)) +
         totalDistractedMs (runTransitions trs (resetStateInMemory w)) =
           fst (last trs) - fst (hd trs)"
proof -
  obtain t ns env rest where trs: "trs = (t, ns, env) # rest"
    using assms(1) by (cases trs) auto
  let ?w = "setStateAt t ns env (resetStateInMemory w)"
  have zero: "totalFocusedMs ?w + totalDistractedMs ?w = 0"
    by (simp add: setStateAt_session resetStateInMemory_def)
  show ?thesis
  proof (cases "rest = []")
    case True
    with zero trs show ?thesis by simp
  next
    case False
    with assms(2) trs have "active ns"
      and "list_all (\<lambda>tr. active (fst (snd tr))) (butlast rest)"
      by simp_all
    then have "totalFocusedMs (runTransitions rest ?w) + totalDistractedMs (runTransitions rest ?w) =
            totalFocusedMs ?w + totalDistractedMs ?w + (fst (last rest) - t)"
      using False by (intro runTransitions_active) (simp_all add: setStateAt_session)
    with zero trs False show ?thesis by simp
  qed
qed

theorem conservation_without_stops_witness:
  "[(0, Some ''focus'', reliable), (60000, Some ''distract'', reliable),
    (90000, None, reliable)] \<noteq> []
   \<and> list_all (\<lambda>tr. active (fst (snd tr)))
        (butlast [(0, Some ''focus'', reliable), (60000, Some ''distract'', reliable),
                  (90000, None, reliable)])
   \<and> totalFocusedMs (runTransitions [(0, Some ''focus'', reliable),
        (60000, Some ''distract'', reliable), (90000, None, reliable)]
        (resetStateInMemory initialWorld)) +
     totalDistractedMs (runTransitions [(0, Some ''focus'', reliable),
        (60000, Some ''distract'', reliable), (90000, None, reliable)]
        (resetStateInMemory initialWorld)) = 90000"
  using conservation_without_stops [of "[(0, Some ''focus'', reliable),
        (60000, Some ''distract'', reliable), (90000, None, reliable)]" initialWorld]
  by (simp add: active_def)

section \<open>Display and fold agree\<close>

text \<open>
  Claim C7: the totals \<open>updateDisplay\<close> shows at the instant \<open>now\<close> are the totals that a
  transition whose elapsed time is measured at \<open>now\<close> stores, whatever the new state, the
  other clock readings and the fate of the write. This holds for every \<open>now\<close>, so in
  particular for every \<open>now\<close> at or after \<open>lastStateChangeTimestamp\<close>.
\<close>

theorem displayed_equals_folded:
  "displayTotals now w =
     (totalFocusedMs (snd (handleStateChange newState (clk(150 := now)) env w)),
      totalDistractedMs (snd (handleStateChange newState (clk(150 := now)) env w)))"
  by (simp add: handleStateChange_session displayTotals_def truthy_def Let_def
           split: option.split)

section \<open>Stopping twice\<close>

text \<open>
  Claim C8: a second \<open>handleStateChange(null)\<close> leaves both totals as the first one left
  them. After the first stop the state is \<open>null\<close>, so the second banks nothing; the order
  of the two instants does not matter.
\<close>

theorem stop_idempotent:
  "totalFocusedMs (setStateAt t2 None env2 (setStateAt t1 None env1 w)) =
     totalFocusedMs (setStateAt t1 None env1 w) \<and>
   totalDistractedMs (setStateAt t2 None env2 (setStateAt t1 None env1 w)) =
     totalDistractedMs (setStateAt t1 None env1 w)"
  by (simp add: setStateAt_session)

section \<open>Negative elapsed time\<close>

lemma setStateAt_nonneg:
  assumes "0 \<le> totalFocusedMs w" and "0 \<le> totalDistractedMs w"
    and "notBefore (lastStateChangeTimestamp w) t"
  shows "0 \<le> totalFocusedMs (setStateAt t ns env w) \<and>
         0 \<le> totalDistractedMs (setStateAt t ns env w)"
  using assms by (auto simp: setStateAt_session notBefore_def split: option.splits)

lemma runTransitions_nonneg:
  assumes "0 \<le> totalFocusedMs w" and "0 \<le> totalDistractedMs w"
    and "clockNeverBehind (lastStateChangeTimestamp w) trs"
  shows "0 \<le> totalFocusedMs (runTransitions trs w) \<and>
         0 \<le> totalDistractedMs (runTransitions trs w)"
  using assms
proof (induction trs arbitrary: w)
  case Nil
  then show ?case by simp
next
  case (Cons tr trs)
  obtain t ns env where tr: "tr = (t, ns, env)" by (cases tr)
  from Cons.prems tr have "notBefore (lastStateChangeTimestamp w) t"
    and later: "clockNeverBehind (Some t) trs" by simp_all
  with Cons.prems(1,2)
  have "0 \<le> totalFocusedMs (setStateAt t ns env w) \<and>
        0 \<le> totalDistractedMs (setStateAt t ns env w)"
    by (intro setStateAt_nonneg)
  with later tr show ?case
    using Cons.IH [of "setStateAt t ns env w"] by (simp add: setStateAt_session)
qed

lemma displayTotals_nonneg:
  assumes "0 \<le> totalFocusedMs w" and "0 \<le> totalDistractedMs w"
    and "notBefore (lastStateChangeTimestamp w) now"
  shows "0 \<le> fst (displayTotals now w) \<and> 0 \<le> snd (displayTotals now w)"
  using assms by (auto simp: displayTotals_def Let_def notBefore_def split: option.splits)

lemma showNat_0: "showNat 0 = ''0''"
  by (simp add: showNat.simps)

lemma formatTime_nonpositive: "ms \<le> 0 \<Longrightarrow> formatTime ms = ''00:00:00''"
  by (simp add: formatTime_def showInt_def showNat_0 padStart_def)

text \<open>
  Claim C2 says that elapsed time is clamped at zero when the clock has moved backward,
  so that the totals are never negative. Neither \<open>handleStateChange\<close> nor
  \<open>updateDisplay\<close> clamps the difference: focus at 1000 followed by a stop at 0 stores a
  focused total of -1000.
\<close>

theorem negative_total_counterexample:
  "totalFocusedMs (runTransitions [(1000, Some ''focus'', reliable), (0, None, reliable)]
                     initialWorld) = - 1000
   \<and> totalFocusedMs (runTransitions [(1000, Some ''focus'', reliable), (0, None, reliable)]
                     initialWorld) < 0
   \<and> fst (displayTotals 0 (runTransitions [(1000, Some ''focus'', reliable)] initialWorld))
       = - 1000"
  by (simp add: setStateAt_session initialWorld_def displayTotals_def truthy_simps)

text \<open>
  Claim C2, amended: elapsed time is the plain difference between the clock and
  \<open>lastStateChangeTimestamp\<close>. From non-negative totals, and as long as no transition
  happens at a clock reading before the stored timestamp, both totals stay non-negative,
  and so do the totals displayed at any instant not before the last timestamp. The one
  clamp in the code is in \<open>formatTime\<close>: a total that is not positive is shown as
  \<open>00:00:00\<close>.
\<close>

theorem totals_nonneg_when_clock_never_behind:
  assumes "0 \<le> totalFocusedMs w" and "0 \<le> totalDistractedMs w"
    and "clockNeverBehind (lastStateChangeTimestamp w) trs"
  shows "0 \<le> totalFocusedMs (runTransitions trs w)
         \<and> 0 \<le> totalDistractedMs (runTransitions trs w)
         \<and> (notBefore (lastStateChangeTimestamp (runTransitions trs w)) now \<longrightarrow>
              0 \<le> fst (displayTotals now (runTransitions trs w)) \<and>
              0 \<le> snd (displayTotals now (runTransitions trs w)))
         \<and> formatTime (min 0 ms) = ''00:00:00''"
proof -
  have totals: "0 \<le> totalFocusedMs (runTransitions trs w) \<and>
                0 \<le> totalDistractedMs (runTransitions trs w)"
    using assms by (rule runTransitions_nonneg)
  then have "0 \<le> fst (displayTotals now (runTransitions trs w)) \<and>
             0 \<le> snd (displayTotals now (runTransitions trs w))"
    if "notBefore (lastStateChangeTimestamp (runTransitions trs w)) now"
    using that by (intro displayTotals_nonneg) simp_all
  moreover have "formatTime (min 0 ms) = ''00:00:00''"
    by (rule formatTime_nonpositive) simp
  ultimately show ?thesis using totals by blast
qed

theorem totals_nonneg_when_clock_never_behind_witness:
  "0 \<le> totalFocusedMs initialWorld \<and> 0 \<le> totalDistractedMs initialWorld
   \<and> clockNeverBehind (lastStateChangeTimestamp initialWorld)
        [(0, Some ''focus'', reliable), (60000, Some ''distract'', reliable)]
   \<and> notBefore (lastStateChangeTimestamp
        (runTransitions [(0, Some ''focus'', reliable), (60000, Some ''distract'', reliable)]
           initialWorld)) 90000
   \<and> displayTotals 90000
        (runTransitions [(0, Some ''focus'', reliable), (60000, Some ''distract'', reliable)]
           initialWorld) = (60000, 30000)
   \<and> formatTime (min 0 (- 5)) = ''00:00:00''"
  using totals_nonneg_when_clock_never_behind [of initialWorld
      "[(0, Some ''focus'', reliable), (60000, Some ''distract'', reliable)]" 90000 "- 5"]
  by (simp add: setStateAt_session initialWorld_def notBefore_def displayTotals_def
        truthy_simps)

section \<open>The timestamp and the state\<close>

lemma orNull_stamped: "stampedWhenActive st ts \<Longrightarrow> stampedWhenActive (orNull st) ts"
  by (auto simp: stampedWhenActive_def orNull_def)

lemma adopt_cloud_stamped:
  assumes "dataToMigrate w = None"
    and "stampedWhenActive (c_currentState sd) (c_lastStateChangeTimestamp sd)"
  shows "stampedWhenActive (currentState (snd (snapshotCallback ref (Some sd) clk env w)))
           (lastStateChangeTimestamp (snd (snapshotCallback ref (Some sd) clk env w)))"
  using assms by (simp add: snapshotCallback_plain startTick_def orNull_stamped)

lemma adopt_local_stamped:
  assumes "stampedWhenActive (currentState w) (lastStateChangeTimestamp w)"
    and "case result of None \<Rightarrow> True
         | Some data \<Rightarrow> stampedWhenActive (l_currentState data) (l_lastStateChangeTimestamp data)"
  shows "stampedWhenActive (currentState (handleLoggedOutUser_onsuccess result w))
           (lastStateChangeTimestamp (handleLoggedOutUser_onsuccess result w))"
  using assms
  by (cases result)
     (simp_all add: handleLoggedOutUser_onsuccess_def startTick_def orNull_stamped)

lemma local_read_issue_session:
  "currentState (handleLoggedOutUser clk w) = currentState w"
  "lastStateChangeTimestamp (handleLoggedOutUser clk w) = lastStateChangeTimestamp w"
  "currentState (handleLoggedOutUser_onerror w) = currentState w"
  "lastStateChangeTimestamp (handleLoggedOutUser_onerror w) = lastStateChangeTimestamp w"
  by (simp_all add: handleLoggedOutUser_def handleLoggedOutUser_onerror_def startTick_def)

text \<open>
  Claim C3 says that every operation keeps \<open>lastStateChangeTimestamp\<close> present exactly
  when \<open>currentState\<close> is not none, and that the timestamp is absent after a transition
  to none. Line 156 stamps every transition: after a stop at instant 5 the state is
  \<open>null\<close> and the timestamp is 5.
\<close>

theorem stamp_iff_active_counterexample:
  "currentState (setStateAt 5 None reliable initialWorld) = None
   \<and> lastStateChangeTimestamp (setStateAt 5 None reliable initialWorld) = Some 5
   \<and> (lastStateChangeTimestamp (setStateAt 5 None reliable initialWorld) \<noteq> None)
       \<noteq> (currentState (setStateAt 5 None reliable initialWorld) \<noteq> None)"
  by (simp add: setStateAt_session)

text \<open>
  Claim C3, amended: every operation keeps the implication that a state other than none
  has a timestamp. A transition to any state, none included, leaves the timestamp
  present (the clock reading of line 156); a reset leaves state and timestamp both
  absent; adopting a cloud snapshot or the local record keeps the implication when the
  adopted record has it, whenever the callback that adopts it runs; issuing the local
  read, or its failing, changes neither field; the record written to IndexedDB has it
  when the session has; and a record written to the cloud always carries the server's
  timestamp.
\<close>

theorem active_implies_stamped:
  "lastStateChangeTimestamp (snd (handleStateChange newState clk env w)) = Some (clk 156)
   \<and> stampedWhenActive (currentState (snd (handleStateChange newState clk env w)))
        (lastStateChangeTimestamp (snd (handleStateChange newState clk env w)))
   \<and> stampedWhenActive (currentState (resetStateInMemory w))
        (lastStateChangeTimestamp (resetStateInMemory w))
   \<and> (dataToMigrate w = None \<and>
        stampedWhenActive (c_currentState sd) (c_lastStateChangeTimestamp sd) \<longrightarrow>
        stampedWhenActive (currentState (snd (snapshotCallback ref (Some sd) clk env w)))
          (lastStateChangeTimestamp (snd (snapshotCallback ref (Some sd) clk env w))))
   \<and> (stampedWhenActive (currentState w) (lastStateChangeTimestamp w) \<and>
        (case result of None \<Rightarrow> True
         | Some data \<Rightarrow>
             stampedWhenActive (l_currentState data) (l_lastStateChangeTimestamp data)) \<longrightarrow>
        stampedWhenActive (currentState (handleLoggedOutUser_onsuccess result w))
          (lastStateChangeTimestamp (handleLoggedOutUser_onsuccess result w)))
   \<and> (stampedWhenActive (currentState w) (lastStateChangeTimestamp w) \<longrightarrow>
        stampedWhenActive (currentState (handleLoggedOutUser clk w))
          (lastStateChangeTimestamp (handleLoggedOutUser clk w)) \<and>
        stampedWhenActive (currentState (handleLoggedOutUser_onerror w))
          (lastStateChangeTimestamp (handleLoggedOutUser_onerror w)))
   \<and> (stampedWhenActive (currentState w) (lastStateChangeTimestamp w) \<longrightarrow>
        (case idbPut (getCurrentStateAsObject True False now w) store (getTodayKey now) of
           None \<Rightarrow> False
         | Some r \<Rightarrow> stampedWhenActive (l_currentState r) (l_lastStateChangeTimestamp r)))
   \<and> c_lastStateChangeTimestamp
        (firestoreSet merge srv (getCurrentStateAsObject False True now w) old) = Some srv"
proof -
  have "stampedWhenActive (currentState (resetStateInMemory w))
          (lastStateChangeTimestamp (resetStateInMemory w))"
    by (simp add: resetStateInMemory_def stampedWhenActive_def)
  moreover have "stampedWhenActive (currentState (snd (handleStateChange newState clk env w)))
        (lastStateChangeTimestamp (snd (handleStateChange newState clk env w)))"
    by (simp add: handleStateChange_session stampedWhenActive_def)
  ultimately show ?thesis
    using adopt_cloud_stamped [of w sd ref clk env] adopt_local_stamped [of w result]
    by (simp add: handleStateChange_session serialize_local serialize_cloud
          local_read_issue_session)
qed

theorem active_implies_stamped_witness:
  "dataToMigrate initialWorld = None
   \<and> stampedWhenActive (c_currentState sampleCloud) (c_lastStateChangeTimestamp sampleCloud)
   \<and> stampedWhenActive (currentState initialWorld) (lastStateChangeTimestamp initialWorld)
   \<and> lastStateChangeTimestamp
        (snd (handleStateChange None (\<lambda>_. sampleInstant) reliable initialWorld))
       = Some sampleInstant
   \<and> stampedWhenActive
        (currentState (snd (snapshotCallback (''alice'', ''2024-01-02'') (Some sampleCloud)
           (\<lambda>_. sampleInstant) reliable initialWorld)))
        (lastStateChangeTimestamp (snd (snapshotCallback (''alice'', ''2024-01-02'')
           (Some sampleCloud) (\<lambda>_. sampleInstant) reliable initialWorld)))
   \<and> stampedWhenActive (l_currentState sampleLocal) (l_lastStateChangeTimestamp sampleLocal)
   \<and> stampedWhenActive
        (currentState (handleLoggedOutUser_onsuccess (Some sampleLocal) initialWorld))
        (lastStateChangeTimestamp (handleLoggedOutUser_onsuccess (Some sampleLocal) initialWorld))
   \<and> stampedWhenActive (currentState (handleLoggedOutUser (\<lambda>_. sampleInstant) initialWorld))
        (lastStateChangeTimestamp (handleLoggedOutUser (\<lambda>_. sampleInstant) initialWorld))"
  using active_implies_stamped [where newState = None and clk = "\<lambda>_. sampleInstant"
      and env = reliable and w = initialWorld and sd = sampleCloud
      and ref = "(''alice'', ''2024-01-02'')" and result = "Some sampleLocal"]
  by (simp add: initialWorld_def sampleCloud_def sampleLocal_def stampedWhenActive_def)

section \<open>Migration of the staged payload\<close>

lemma snapshotCallback_write:
  assumes "dataToMigrate w = Some p" and "cloudWriteOk env"
  shows "cloudStore (snd (snapshotCallback ref sd clk env w)) ref =
           Some (firestoreSet True (serverNow env)
                   \<lparr>o_date = None,
                    o_totalFocusedMs =
                      orZero (case sd of None \<Rightarrow> None | Some r \<Rightarrow> c_totalFocusedMs r)
                        + p_totalFocusedMs p,
                    o_totalDistractedMs =
                      orZero (case sd of None \<Rightarrow> None | Some r \<Rightarrow> c_totalDistractedMs r)
                        + p_totalDistractedMs p,
                    o_currentState = p_currentState p,
                    o_lastStateChangeTimestamp = TsServer\<rparr>
                   (cloudStore w ref))"
  using assms
  by (simp add: snapshotCallback_def deleteLocalRecord_def Let_def)

lemma snapshotCallback_delete:
  assumes "dataToMigrate w = Some p" and "cloudWriteOk env" and "db w" and "localTxOk env"
  shows "fst (snapshotCallback ref sd clk env w) = Migrated"
    and "localStore (snd (snapshotCallback ref sd clk env w)) =
           (localStore w)(getTodayKey (clk 126) := None)"
  using assms
  by (simp_all add: snapshotCallback_def deleteLocalRecord_def Let_def)

text \<open>
  Claim C4 says that the staged payload stays in \<open>sessionStorage\<close> until the merge write
  and the local delete have both succeeded, so that a failed write can be retried on the
  next snapshot. Line 116 removes the item right after it has been parsed, before the
  write of line 125: with the payload staged and the cloud write failing, the callback
  ends with the slot empty.
\<close>

theorem payload_cleared_before_write_counterexample:
  "fst (snapshotCallback (''alice'', ''2024-01-02'') (Some sampleCloud) (\<lambda>_. sampleInstant)
          (reliable\<lparr>cloudWriteOk := False\<rparr>) stagedWorld) = MigrationFailed CloudWriteFailed
   \<and> dataToMigrate (snd (snapshotCallback (''alice'', ''2024-01-02'') (Some sampleCloud)
          (\<lambda>_. sampleInstant) (reliable\<lparr>cloudWriteOk := False\<rparr>) stagedWorld)) = None"
  using snapshotCallback_staged(3) [of stagedWorld samplePayload
      "reliable\<lparr>cloudWriteOk := False\<rparr>" "(''alice'', ''2024-01-02'')" "Some sampleCloud"
      "\<lambda>_. sampleInstant"]
  by (simp add: stagedWorld_simps reliable_def)

text \<open>
  Claim C4, amended: the staged payload is cleared as soon as the snapshot callback has
  read it, whatever happens to the writes that follow. When the merge write fails, the
  callback stops there: nothing but the slot has changed, and the next snapshot delivery
  does not take the migration branch again.
\<close>

theorem payload_cleared_on_read:
  assumes "dataToMigrate w = Some p"
  shows "dataToMigrate (snd (snapshotCallback ref sd clk env w)) = None
         \<and> (\<not> cloudWriteOk env \<longrightarrow>
              snapshotCallback ref sd clk env w =
                (MigrationFailed CloudWriteFailed, w\<lparr>dataToMigrate := None\<rparr>))
         \<and> \<not> migrationBranch (fst (snapshotCallback ref sd' clk' env'
                                     (snd (snapshotCallback ref sd clk env w))))"
  using assms
  by (simp add: snapshotCallback_staged [of w p] snapshotCallback_branch)

theorem payload_cleared_on_read_witness:
  "dataToMigrate stagedWorld = Some samplePayload
   \<and> snapshotCallback (''alice'', ''2024-01-02'') (Some sampleCloud) (\<lambda>_. sampleInstant)
          (reliable\<lparr>cloudWriteOk := False\<rparr>) stagedWorld
       = (MigrationFailed CloudWriteFailed, stagedWorld\<lparr>dataToMigrate := None\<rparr>)
   \<and> fst (snapshotCallback (''alice'', ''2024-01-02'') (Some sampleCloud) (\<lambda>_. sampleInstant)
          reliable
          (snd (snapshotCallback (''alice'', ''2024-01-02'') (Some sampleCloud)
                  (\<lambda>_. sampleInstant) (reliable\<lparr>cloudWriteOk := False\<rparr>) stagedWorld)))
       = Adopted"
  using payload_cleared_on_read [of stagedWorld samplePayload "(''alice'', ''2024-01-02'')"
      "Some sampleCloud" "\<lambda>_. sampleInstant" "reliable\<lparr>cloudWriteOk := False\<rparr>"
      "Some sampleCloud" "\<lambda>_. sampleInstant" reliable]
  by (simp add: stagedWorld_simps reliable_def snapshotCallback_plain)

text \<open>
  Claim C5: with a payload staged and the cloud write succeeding, the document written
  has the snapshot's totals (zero for a missing document or field) plus the payload's,
  the payload's state and the server's timestamp; the \<open>date\<close> field, which the written
  object lacks, is kept from the stored document. With the IndexedDB handle open and the
  delete transaction succeeding, the local record under today's key is gone afterwards.
\<close>

theorem migration_merge_exact:
  assumes "dataToMigrate w = Some p" and "cloudWriteOk env"
  shows "cloudStore (snd (snapshotCallback ref (Some cloud) clk env w)) ref =
           Some \<lparr>c_date = (case cloudStore w ref of None \<Rightarrow> None | Some old \<Rightarrow> c_date old),
                 c_totalFocusedMs = Some (orZero (c_totalFocusedMs cloud) + p_totalFocusedMs p),
                 c_totalDistractedMs =
                   Some (orZero (c_totalDistractedMs cloud) + p_totalDistractedMs p),
                 c_currentState = p_currentState p,
                 c_lastStateChangeTimestamp = Some (serverNow env)\<rparr>
         \<and> cloudStore (snd (snapshotCallback ref None clk env w)) ref =
           Some \<lparr>c_date = (case cloudStore w ref of None \<Rightarrow> None | Some old \<Rightarrow> c_date old),
                 c_totalFocusedMs = Some (0 + p_totalFocusedMs p),
                 c_totalDistractedMs = Some (0 + p_totalDistractedMs p),
                 c_currentState = p_currentState p,
                 c_lastStateChangeTimestamp = Some (serverNow env)\<rparr>
         \<and> (db w \<and> localTxOk env \<longrightarrow>
              fst (snapshotCallback ref sd clk env w) = Migrated \<and>
              localStore (snd (snapshotCallback ref sd clk env w)) (getTodayKey (clk 126)) = None)"
  using assms
  by (simp add: snapshotCallback_write [of w p] snapshotCallback_delete [of w p]
        firestoreSet_def orZero_def split: option.split)

theorem migration_merge_exact_witness:
  "dataToMigrate stagedWorld = Some samplePayload \<and> cloudWriteOk reliable
   \<and> db stagedWorld \<and> localTxOk reliable
   \<and> cloudStore (snd (snapshotCallback (''alice'', ''2024-01-02'') (Some sampleCloud)
         (\<lambda>_. sampleInstant) reliable stagedWorld)) (''alice'', ''2024-01-02'') =
       Some \<lparr>c_date = Some ''2024-01-02'', c_totalFocusedMs = Some 150,
             c_totalDistractedMs = Some 200, c_currentState = Some ''focus'',
             c_lastStateChangeTimestamp = Some 0\<rparr>
   \<and> localStore (snd (snapshotCallback (''alice'', ''2024-01-02'') (Some sampleCloud)
         (\<lambda>_. sampleInstant) reliable stagedWorld)) ''2024-01-02'' = None"
  using migration_merge_exact [of stagedWorld samplePayload reliable
      "(''alice'', ''2024-01-02'')" sampleCloud "\<lambda>_. sampleInstant" "Some sampleCloud"]
  by (simp add: stagedWorld_simps reliable_def sampleCloud_def samplePayload_def orZero_def
        sampleInstant_def getTodayKey_sample)

section \<open>Switching identity\<close>

lemma snapshotCallback_ignores_localStore:
  assumes "dataToMigrate w = None"
  shows "cloudStore (snd (snapshotCallback ref sd clk env (w\<lparr>localStore := ls\<rparr>))) =
           cloudStore (snd (snapshotCallback ref sd clk env w))"
  using assms
  by (cases sd) (simp_all add: snapshotCallback_plain startTick_def getCurrentStateAsObject_def)

text \<open>
  What the reset of line 65 achieves. Signing in clears the four session variables before
  anything of the signed-in path runs, so the world after \<open>handleAuthStateChange\<close> is the
  same whatever the anonymous session held in memory. When the next event is the
  delivery of a snapshot and no payload is staged, the cloud documents afterwards are
  the same whatever the session and the local store held; if the user has no document
  for today, the one created has both totals zero.
\<close>

lemma login_then_snapshot_isolated:
  "totalFocusedMs (handleAuthStateChange (Some u) clk w) = 0
   \<and> totalDistractedMs (handleAuthStateChange (Some u) clk w) = 0
   \<and> currentState (handleAuthStateChange (Some u) clk w) = None
   \<and> lastStateChangeTimestamp (handleAuthStateChange (Some u) clk w) = None
   \<and> handleAuthStateChange (Some u) clk
        (w\<lparr>totalFocusedMs := X, totalDistractedMs := Y, currentState := st,
           lastStateChangeTimestamp := ts\<rparr>)
       = handleAuthStateChange (Some u) clk w
   \<and> (dataToMigrate w = None \<longrightarrow>
        cloudStore (snd (snapshotCallback ref sd clk' env'
          (handleAuthStateChange (Some u) clk
             (w\<lparr>totalFocusedMs := X, totalDistractedMs := Y, currentState := st,
                lastStateChangeTimestamp := ts, localStore := ls\<rparr>))))
        = cloudStore (snd (snapshotCallback ref sd clk' env'
            (handleAuthStateChange (Some u) clk w))))
   \<and> (dataToMigrate w = None \<and> cloudWriteOk env' \<longrightarrow>
        cloudStore (snd (snapshotCallback ref None clk' env'
          (handleAuthStateChange (Some u) clk w))) ref
        = Some \<lparr>c_date = Some (getTodayKey (clk' 136)), c_totalFocusedMs = Some 0,
                c_totalDistractedMs = Some 0, c_currentState = None,
                c_lastStateChangeTimestamp = Some (serverNow env')\<rparr>)"
proof -
  let ?login = "handleAuthStateChange (Some u) clk"
  have moved: "?login (w\<lparr>totalFocusedMs := X, totalDistractedMs := Y, currentState := st,
                  lastStateChangeTimestamp := ts, localStore := ls\<rparr>)
               = (?login w)\<lparr>localStore := ls\<rparr>"
    by (simp add: handleAuthStateChange_login)
  have kept: "dataToMigrate (?login w) = dataToMigrate w"
    by (simp add: handleAuthStateChange_login)
  have indep: "dataToMigrate w = None \<Longrightarrow>
      cloudStore (snd (snapshotCallback ref sd clk' env' ((?login w)\<lparr>localStore := ls\<rparr>))) =
      cloudStore (snd (snapshotCallback ref sd clk' env' (?login w)))"
    using kept by (intro snapshotCallback_ignores_localStore) simp
  have fresh: "dataToMigrate w = None \<Longrightarrow> cloudWriteOk env' \<Longrightarrow>
      cloudStore (snd (snapshotCallback ref None clk' env' (?login w))) ref
        = Some \<lparr>c_date = Some (getTodayKey (clk' 136)), c_totalFocusedMs = Some 0,
                c_totalDistractedMs = Some 0, c_currentState = None,
                c_lastStateChangeTimestamp = Some (serverNow env')\<rparr>"
    using kept
    by (simp add: snapshotCallback_plain startTick_def serialize_cloud)
       (simp add: handleAuthStateChange_login)
  have same: "?login (w\<lparr>totalFocusedMs := X, totalDistractedMs := Y, currentState := st,
                  lastStateChangeTimestamp := ts\<rparr>) = ?login w"
    by (simp add: handleAuthStateChange_login)
  show ?thesis
    using indep fresh same
    by (simp only: moved) (simp add: handleAuthStateChange_login)
qed

text \<open>The page-load run in which the database opens before the restored user is reported.\<close>

lemma pageLoad_read_pending:
  "initializeApp_onsuccess (\<lambda>_. sampleInstant) pageLoadWorld =
     pageLoadWorld\<lparr>db := True, pendingLocalReads := [''2024-01-02'']\<rparr>"
  by (simp add: initializeApp_onsuccess_def handleLoggedOutUser_def pageLoadWorld_def
        initialWorld_def sampleInstant_def getTodayKey_sample)

lemma pageLoad_login:
  "handleAuthStateChange (Some ''alice'') (\<lambda>_. sampleInstant)
     (initializeApp_onsuccess (\<lambda>_. sampleInstant) pageLoadWorld) =
     pageLoadWorld\<lparr>db := True, pendingLocalReads := [''2024-01-02''],
       currentUser := Some ''alice'',
       firestoreListener := Some (''alice'', ''2024-01-02'')\<rparr>"
  by (simp add: pageLoad_read_pending handleAuthStateChange_login)
     (simp add: pageLoadWorld_def initialWorld_def sampleInstant_def getTodayKey_sample)

lemma pageLoad_stale_callback:
  "deliverLocalRead reliable
     (handleAuthStateChange (Some ''alice'') (\<lambda>_. sampleInstant)
        (initializeApp_onsuccess (\<lambda>_. sampleInstant) pageLoadWorld)) =
     pageLoadWorld\<lparr>db := True, pendingLocalReads := [],
       currentUser := Some ''alice'',
       firestoreListener := Some (''alice'', ''2024-01-02''),
       totalFocusedMs := 120000, totalDistractedMs := 45000,
       currentState := Some ''focus'', lastStateChangeTimestamp := Some 1704169700000,
       tickInterval := True\<rparr>"
  by (simp only: pageLoad_login)
     (simp add: deliverLocalRead_def handleLoggedOutUser_onsuccess_def reliable_def
        pageLoadWorld_def initialWorld_def leftoverLocal_def startTick_def orNull_def
        truthy_simps)

text \<open>
  Claim C6 says that, with no payload staged, the totals of the anonymous session never
  reach the cloud record of the identity that signs in. The reset of line 65 is there
  for that, and \<open>initializeApp\<close> loads local data only under \<open>if (!currentUser)\<close> (lines
  47 and 55); but the \<open>onsuccess\<close> callback of the local read (lines 89--98) assigns the
  session without looking at \<open>currentUser\<close>. At page load, with IndexedDB holding the
  record (120000, 45000, focus) of an anonymous session and nothing staged: the database
  opens and the read is issued, the restored user alice is reported and the session is
  reset, the read completes and fills the session, and the first snapshot, finding no
  document, writes those totals to alice's record.
\<close>

theorem stale_local_read_reaches_cloud:
  "dataToMigrate pageLoadWorld = None
   \<and> currentUser (deliverLocalRead reliable
        (handleAuthStateChange (Some ''alice'') (\<lambda>_. sampleInstant)
           (initializeApp_onsuccess (\<lambda>_. sampleInstant) pageLoadWorld))) = Some ''alice''
   \<and> totalFocusedMs (deliverLocalRead reliable
        (handleAuthStateChange (Some ''alice'') (\<lambda>_. sampleInstant)
           (initializeApp_onsuccess (\<lambda>_. sampleInstant) pageLoadWorld))) = 120000
   \<and> snapshotCallback (''alice'', ''2024-01-02'') None (\<lambda>_. sampleInstant) reliable
        (deliverLocalRead reliable
           (handleAuthStateChange (Some ''alice'') (\<lambda>_. sampleInstant)
              (initializeApp_onsuccess (\<lambda>_. sampleInstant) pageLoadWorld)))
       = (Initialised,
          pageLoadWorld\<lparr>db := True, pendingLocalReads := [],
            currentUser := Some ''alice'',
            firestoreListener := Some (''alice'', ''2024-01-02''),
            totalFocusedMs := 120000, totalDistractedMs := 45000,
            currentState := Some ''focus'', lastStateChangeTimestamp := Some 1704169700000,
            tickInterval := True,
            cloudStore := [(''alice'', ''2024-01-02'') \<mapsto>
              \<lparr>c_date = Some ''2024-01-02'', c_totalFocusedMs = Some 120000,
               c_totalDistractedMs = Some 45000, c_currentState = Some ''focus'',
               c_lastStateChangeTimestamp = Some 0\<rparr>]\<rparr>)"
  by (simp only: pageLoad_stale_callback)
     (simp add: snapshotCallback_plain serialize_cloud startTick_def pageLoadWorld_def
        initialWorld_def reliable_def sampleInstant_def getTodayKey_sample)

section \<open>Staging at sign-in\<close>

lemma signInClick_cases:
  "signInClick clk env w =
     (case (if db w \<and> localTxOk env then localStore w (getTodayKey (clk 176)) else None) of
        Some localData \<Rightarrow>
          if 0 < l_totalFocusedMs localData \<or> 0 < l_totalDistractedMs localData then
            w\<lparr>dataToMigrate :=
                Some \<lparr>p_totalFocusedMs = l_totalFocusedMs localData,
                      p_totalDistractedMs = l_totalDistractedMs localData,
                      p_currentState = l_currentState localData\<rparr>\<rparr>
          else w
      | None \<Rightarrow> w)"
  by (simp add: signInClick_def split: option.split)

lemma getTodayKey_nextDay: "getTodayKey 1704256200000 = ''2024-01-03''"
  by code_simp

lemma first_click_stages:
  "signInClick (\<lambda>_. sampleInstant) reliable signedOutWorld =
     signedOutWorld\<lparr>dataToMigrate := Some samplePayload\<rparr>"
  by (simp add: signInClick_cases signedOutWorld_def initialWorld_def reliable_def
        sampleInstant_def getTodayKey_sample sampleLocal_def samplePayload_def)

text \<open>
  Claim C10 says that when today's local record is absent or all-zero the sign-in flow
  stages nothing, so that no migration branch fires after login. The slot is written on
  line 182 and removed only on line 116, inside the snapshot callback; a sign-in that is
  cancelled is only logged (lines 202--204). A click on 2024-01-02 stages (50, 0, focus);
  the sign-in does not complete; a click the next day finds no record for 2024-01-03 and
  stages nothing, yet after the login the first snapshot takes the migration branch and
  writes the old payload to the new day's document.
\<close>

theorem stale_payload_counterexample:
  "noPositiveTotal
     (localStore (signInClick (\<lambda>_. sampleInstant) reliable signedOutWorld)
        (getTodayKey nextDayInstant))
   \<and> signInClick (\<lambda>_. nextDayInstant) reliable
        (signInClick (\<lambda>_. sampleInstant) reliable signedOutWorld)
       = signInClick (\<lambda>_. sampleInstant) reliable signedOutWorld
   \<and> fst (snapshotCallback (''alice'', ''2024-01-03'') None (\<lambda>_. nextDayInstant) reliable
        (handleAuthStateChange (Some ''alice'') (\<lambda>_. nextDayInstant)
           (signInClick (\<lambda>_. nextDayInstant) reliable
              (signInClick (\<lambda>_. sampleInstant) reliable signedOutWorld)))) = Migrated
   \<and> cloudStore (snd (snapshotCallback (''alice'', ''2024-01-03'') None
        (\<lambda>_. nextDayInstant) reliable
        (handleAuthStateChange (Some ''alice'') (\<lambda>_. nextDayInstant)
           (signInClick (\<lambda>_. nextDayInstant) reliable
              (signInClick (\<lambda>_. sampleInstant) reliable signedOutWorld)))))
        (''alice'', ''2024-01-03'')
       = Some \<lparr>c_date = None, c_totalFocusedMs = Some 50, c_totalDistractedMs = Some 0,
               c_currentState = Some ''focus'', c_lastStateChangeTimestamp = Some 0\<rparr>"
proof -
  let ?w1 = "signedOutWorld\<lparr>dataToMigrate := Some samplePayload\<rparr>"
  have absent: "localStore signedOutWorld ''2024-01-03'' = None"
    by (simp add: signedOutWorld_def initialWorld_def)
  have second: "signInClick (\<lambda>_. nextDayInstant) reliable ?w1 = ?w1"
    by (simp add: signInClick_cases nextDayInstant_def getTodayKey_nextDay absent)
  let ?w2 = "handleAuthStateChange (Some ''alice'') (\<lambda>_. nextDayInstant) ?w1"
  have staged: "dataToMigrate ?w2 = Some samplePayload"
    and open_db: "db ?w2"
    and cloud: "cloudStore ?w2 (''alice'', ''2024-01-03'') = None"
    by (simp_all add: handleAuthStateChange_login signedOutWorld_def initialWorld_def)
  have ok: "cloudWriteOk reliable" "localTxOk reliable" "serverNow reliable = 0"
    by (simp_all add: reliable_def)
  have "fst (snapshotCallback (''alice'', ''2024-01-03'') None (\<lambda>_. nextDayInstant)
               reliable ?w2) = Migrated"
    using staged ok(1) open_db ok(2) by (rule snapshotCallback_delete(1))
  moreover have "cloudStore (snd (snapshotCallback (''alice'', ''2024-01-03'') None
                    (\<lambda>_. nextDayInstant) reliable ?w2)) (''alice'', ''2024-01-03'')
       = Some \<lparr>c_date = None, c_totalFocusedMs = Some 50, c_totalDistractedMs = Some 0,
               c_currentState = Some ''focus'', c_lastStateChangeTimestamp = Some 0\<rparr>"
    using snapshotCallback_write [OF staged ok(1), of "(''alice'', ''2024-01-03'')" None
        "\<lambda>_. nextDayInstant"]
    by (simp add: cloud ok(3) firestoreSet_def orZero_def) (simp add: samplePayload_def)
  ultimately show ?thesis
    by (simp only: first_click_stages second)
       (simp add: nextDayInstant_def getTodayKey_nextDay absent noPositiveTotal_def)
qed

text \<open>
  Claim C10, amended: the click handler changes the staged payload only when the
  IndexedDB read succeeds and finds a record for today with a total above zero, and what
  it stages are that record's totals and state. When today's record is missing or has no
  total above zero, the handler changes nothing, and the first snapshot after the login
  takes the migration branch exactly when a payload was already staged before the click.
\<close>

theorem staging_only_for_positive_totals:
  "(dataToMigrate (signInClick clk env w) \<noteq> dataToMigrate w \<longrightarrow>
      db w \<and> localTxOk env \<and>
      (case localStore w (getTodayKey (clk 176)) of
         None \<Rightarrow> False
       | Some localData \<Rightarrow>
           (0 < l_totalFocusedMs localData \<or> 0 < l_totalDistractedMs localData) \<and>
           dataToMigrate (signInClick clk env w) =
             Some \<lparr>p_totalFocusedMs = l_totalFocusedMs localData,
                   p_totalDistractedMs = l_totalDistractedMs localData,
                   p_currentState = l_currentState localData\<rparr>))
   \<and> (noPositiveTotal (localStore w (getTodayKey (clk 176))) \<longrightarrow>
        signInClick clk env w = w \<and>
        migrationBranch (fst (snapshotCallback ref sd clkS envS
            (handleAuthStateChange (Some u) clkA (signInClick clk env w))))
          = (dataToMigrate w \<noteq> None))"
proof -
  have unchanged: "signInClick clk env w = w"
    if "noPositiveTotal (localStore w (getTodayKey (clk 176)))"
    using that by (auto simp: signInClick_cases noPositiveTotal_def split: option.splits)
  have branch: "migrationBranch (fst (snapshotCallback ref sd clkS envS
                   (handleAuthStateChange (Some u) clkA w))) = (dataToMigrate w \<noteq> None)"
    by (simp add: snapshotCallback_branch handleAuthStateChange_login)
  have staged: "db w \<and> localTxOk env \<and>
      (case localStore w (getTodayKey (clk 176)) of
         None \<Rightarrow> False
       | Some localData \<Rightarrow>
           (0 < l_totalFocusedMs localData \<or> 0 < l_totalDistractedMs localData) \<and>
           dataToMigrate (signInClick clk env w) =
             Some \<lparr>p_totalFocusedMs = l_totalFocusedMs localData,
                   p_totalDistractedMs = l_totalDistractedMs localData,
                   p_currentState = l_currentState localData\<rparr>)"
    if "dataToMigrate (signInClick clk env w) \<noteq> dataToMigrate w"
    using that by (auto simp: signInClick_cases split: option.splits if_splits)
  show ?thesis
    using unchanged branch staged by auto
qed

theorem staging_only_for_positive_totals_witness:
  "noPositiveTotal (localStore idleWorld (getTodayKey sampleInstant))
   \<and> signInClick (\<lambda>_. sampleInstant) reliable idleWorld = idleWorld
   \<and> \<not> migrationBranch (fst (snapshotCallback (''alice'', ''2024-01-02'') None
          (\<lambda>_. sampleInstant) reliable
          (handleAuthStateChange (Some ''alice'') (\<lambda>_. sampleInstant)
             (signInClick (\<lambda>_. sampleInstant) reliable idleWorld))))
   \<and> dataToMigrate (signInClick (\<lambda>_. sampleInstant) reliable signedOutWorld)
        \<noteq> dataToMigrate signedOutWorld
   \<and> dataToMigrate (signInClick (\<lambda>_. sampleInstant) reliable signedOutWorld)
        = Some samplePayload"
proof -
  have idle: "noPositiveTotal (localStore idleWorld (getTodayKey sampleInstant))"
    by (simp add: idleWorld_def idleLocal_def noPositiveTotal_def sampleInstant_def
          getTodayKey_sample)
  have staged: "dataToMigrate (signInClick (\<lambda>_. sampleInstant) reliable signedOutWorld)
                  = Some samplePayload"
    by (simp add: first_click_stages)
  have empty: "dataToMigrate idleWorld = None" "dataToMigrate signedOutWorld = None"
    by (simp_all add: idleWorld_def signedOutWorld_def initialWorld_def)
  from idle
    staging_only_for_positive_totals [where clk = "\<lambda>_. sampleInstant" and env = reliable
        and w = idleWorld and ref = "(''alice'', ''2024-01-02'')" and sd = None
        and clkS = "\<lambda>_. sampleInstant" and envS = reliable and u = "''alice''"
        and clkA = "\<lambda>_. sampleInstant"]
  have same: "signInClick (\<lambda>_. sampleInstant) reliable idleWorld = idleWorld"
    and branch: "migrationBranch (fst (snapshotCallback (''alice'', ''2024-01-02'') None
          (\<lambda>_. sampleInstant) reliable
          (handleAuthStateChange (Some ''alice'') (\<lambda>_. sampleInstant)
             (signInClick (\<lambda>_. sampleInstant) reliable idleWorld))))
        = (dataToMigrate idleWorld \<noteq> None)"
    by blast+
  from branch empty(1)
  have "\<not> migrationBranch (fst (snapshotCallback (''alice'', ''2024-01-02'') None
          (\<lambda>_. sampleInstant) reliable
          (handleAuthStateChange (Some ''alice'') (\<lambda>_. sampleInstant)
             (signInClick (\<lambda>_. sampleInstant) reliable idleWorld))))"
    by simp
  with idle same staged empty(2) show ?thesis by simp
qed

section \<open>The date key\<close>

lemma div_bounds:
  fixes a b :: int
  assumes "0 < b"
  shows "b * (a div b) \<le> a" and "a < b * (a div b) + b"
proof -
  have "a = b * (a div b) + a mod b" by simp
  moreover have "0 \<le> a mod b" and "a mod b < b" using assms by simp_all
  ultimately show "b * (a div b) \<le> a" and "a < b * (a div b) + b" by linarith+
qed

lemma month_day_bounds:
  fixes doy :: int
  assumes "0 \<le> doy" "doy \<le> 365"
  defines "mp \<equiv> (5 * doy + 2) div 153"
  defines "d \<equiv> doy - (153 * mp + 2) div 5 + 1"
  shows "0 \<le> mp \<and> mp \<le> 11 \<and> 1 \<le> d \<and> d \<le> 31"
proof -
  define k where "k = (153 * mp + 2) div 5"
  have mp: "153 * mp \<le> 5 * doy + 2" "5 * doy + 2 < 153 * mp + 153"
    unfolding mp_def by (rule div_bounds; simp)+
  have k: "5 * k \<le> 153 * mp + 2" "153 * mp + 2 < 5 * k + 5"
    unfolding k_def by (rule div_bounds; simp)+
  have "d = doy - k + 1" by (simp add: d_def k_def)
  with mp k assms(1,2) show ?thesis by linarith
qed


lemma mod_as_diff:
  fixes a b :: int
  shows "a mod b = a - b * (a div b)"
  by (simp add: minus_mult_div_eq_mod)

text \<open>The quantities \<open>civilFromDays\<close> computes, with the linear facts that tie them
  together.\<close>

lemma civilFromDays_parts:
  obtains era doe cc c dc q dq e a doy mp where
    "146097 * era \<le> z0 + 719468" "z0 + 719468 < 146097 * era + 146097"
    "doe = z0 + 719468 - 146097 * era"
    "36524 * cc \<le> doe" "doe < 36524 * cc + 36524" "c = min 3 cc"
    "dc = doe - c * 36524"
    "1461 * q \<le> dc" "dc < 1461 * q + 1461" "dq = dc - 1461 * q"
    "365 * e \<le> dq" "dq < 365 * e + 365" "a = min 3 e"
    "doy = dq - a * 365"
    "153 * mp \<le> 5 * doy + 2" "5 * doy + 2 < 153 * mp + 153"
    "civilFromDays z0 =
       (if (if mp < 10 then mp + 3 else mp - 9) \<le> 2
        then era * 400 + c * 100 + q * 4 + a + 1 else era * 400 + c * 100 + q * 4 + a,
        if mp < 10 then mp + 3 else mp - 9,
        doy - (153 * mp + 2) div 5 + 1)"
proof -
  define era where "era = (z0 + 719468) div 146097"
  define doe where "doe = (z0 + 719468) mod 146097"
  define cc where "cc = doe div 36524"
  define c where "c = min 3 cc"
  define dc where "dc = doe - c * 36524"
  define q where "q = dc div 1461"
  define dq where "dq = dc mod 1461"
  define e where "e = dq div 365"
  define a where "a = min 3 e"
  define doy where "doy = dq - a * 365"
  define mp where "mp = (5 * doy + 2) div 153"
  have f17: "civilFromDays z0 =
       (if (if mp < 10 then mp + 3 else mp - 9) \<le> 2
        then era * 400 + c * 100 + q * 4 + a + 1 else era * 400 + c * 100 + q * 4 + a,
        if mp < 10 then mp + 3 else mp - 9,
        doy - (153 * mp + 2) div 5 + 1)"
    unfolding civilFromDays_def Let_def era_def doe_def cc_def c_def dc_def q_def dq_def
      e_def a_def doy_def mp_def
    by (rule refl)
  have f1: "146097 * era \<le> z0 + 719468" and f2: "z0 + 719468 < 146097 * era + 146097"
    unfolding era_def by (rule div_bounds; simp)+
  have f3: "doe = z0 + 719468 - 146097 * era"
    unfolding doe_def era_def by (rule mod_as_diff)
  have f4: "36524 * cc \<le> doe" and f5: "doe < 36524 * cc + 36524"
    unfolding cc_def by (rule div_bounds; simp)+
  have f8: "1461 * q \<le> dc" and f9: "dc < 1461 * q + 1461"
    unfolding q_def by (rule div_bounds; simp)+
  have f10: "dq = dc - 1461 * q"
    unfolding dq_def q_def by (rule mod_as_diff)
  have f11: "365 * e \<le> dq" and f12: "dq < 365 * e + 365"
    unfolding e_def by (rule div_bounds; simp)+
  have f15: "153 * mp \<le> 5 * doy + 2" and f16: "5 * doy + 2 < 153 * mp + 153"
    unfolding mp_def by (rule div_bounds; simp)+
  show thesis
    by (rule that [OF f1 f2 f3 f4 f5 c_def dc_def f8 f9 f10 f11 f12 a_def doy_def f15 f16 f17])
qed


lemma civilFromDays_month_day:
  assumes "civilFromDays z0 = (y, m, d)"
  shows "1 \<le> m \<and> m \<le> 12 \<and> 1 \<le> d \<and> d \<le> 31"
proof -
  obtain era doe cc c dc q dq e a doy mp where
    p: "146097 * era \<le> z0 + 719468" "z0 + 719468 < 146097 * era + 146097"
    "doe = z0 + 719468 - 146097 * era"
    "36524 * cc \<le> doe" "doe < 36524 * cc + 36524" "c = min 3 cc"
    "dc = doe - c * 36524"
    "1461 * q \<le> dc" "dc < 1461 * q + 1461" "dq = dc - 1461 * q"
    "365 * e \<le> dq" "dq < 365 * e + 365" "a = min 3 e"
    "doy = dq - a * 365"
    "153 * mp \<le> 5 * doy + 2" "5 * doy + 2 < 153 * mp + 153"
    and civil: "civilFromDays z0 =
       (if (if mp < 10 then mp + 3 else mp - 9) \<le> 2
        then era * 400 + c * 100 + q * 4 + a + 1 else era * 400 + c * 100 + q * 4 + a,
        if mp < 10 then mp + 3 else mp - 9,
        doy - (153 * mp + 2) div 5 + 1)"
    by (rule civilFromDays_parts)
  have dq: "0 \<le> dq" "dq < 1461" using p(8,9,10) by linarith+
  have doy: "0 \<le> doy \<and> doy \<le> 365"
  proof (cases "3 \<le> e")
    case True
    then have "a = 3" using p(13) by simp
    with dq p(11,14) True show ?thesis by linarith
  next
    case False
    then have "a = e" using p(13) by simp
    with dq p(11,12,14) show ?thesis by linarith
  qed
  define mp' where "mp' = (5 * doy + 2) div 153"
  have "153 * mp' \<le> 5 * doy + 2" "5 * doy + 2 < 153 * mp' + 153"
    unfolding mp'_def by (rule div_bounds; simp)+
  with p(15,16) have "mp' = mp" by linarith
  with month_day_bounds [of doy] doy
  have "0 \<le> mp \<and> mp \<le> 11 \<and> 1 \<le> doy - (153 * mp + 2) div 5 + 1
        \<and> doy - (153 * mp + 2) div 5 + 1 \<le> 31"
    by (simp add: mp'_def)
  moreover from assms civil
  have "m = (if mp < 10 then mp + 3 else mp - 9)" "d = doy - (153 * mp + 2) div 5 + 1"
    by simp_all
  ultimately show ?thesis by (simp split: if_splits)
qed


lemma civilFromDays_year:
  assumes "civilFromDays z0 = (y, m, d)" and "- 719528 \<le> z0" and "z0 \<le> 2932896"
  shows "0 \<le> y \<and> y \<le> 9999"
proof -
  obtain era doe cc c dc q dq e a doy mp where
    p: "146097 * era \<le> z0 + 719468" "z0 + 719468 < 146097 * era + 146097"
    "doe = z0 + 719468 - 146097 * era"
    "36524 * cc \<le> doe" "doe < 36524 * cc + 36524" "c = min 3 cc"
    "dc = doe - c * 36524"
    "1461 * q \<le> dc" "dc < 1461 * q + 1461" "dq = dc - 1461 * q"
    "365 * e \<le> dq" "dq < 365 * e + 365" "a = min 3 e"
    "doy = dq - a * 365"
    "153 * mp \<le> 5 * doy + 2" "5 * doy + 2 < 153 * mp + 153"
    and civil: "civilFromDays z0 =
       (if (if mp < 10 then mp + 3 else mp - 9) \<le> 2
        then era * 400 + c * 100 + q * 4 + a + 1 else era * 400 + c * 100 + q * 4 + a,
        if mp < 10 then mp + 3 else mp - 9,
        doy - (153 * mp + 2) div 5 + 1)"
    by (rule civilFromDays_parts)
  have era: "- 1 \<le> era" "era \<le> 24" using p(1,2) assms(2,3) by linarith+
  have doe: "0 \<le> doe" "doe < 146097" using p(1,2,3) by linarith+
  have cc: "0 \<le> cc" "cc \<le> 4" using doe p(4,5) by linarith+
  have c: "0 \<le> c" "c \<le> 3" "c \<le> cc" using cc p(6) by simp_all
  have c3: "c = 3" if "3 \<le> cc" using that p(6) by simp
  have ccc: "c = cc" if "cc < 3" using that p(6) by simp
  have dc: "0 \<le> dc" "dc \<le> 36524"
    using doe p(4,5,7) cc c3 ccc by (cases "3 \<le> cc"; simp; linarith)+
  have q: "0 \<le> q" "q \<le> 24" using dc p(8,9) by linarith+
  have dq: "0 \<le> dq" "dq < 1461" using p(8,9,10) by linarith+
  have e: "0 \<le> e" "e \<le> 4" using dq p(11,12) by linarith+
  have a: "0 \<le> a" "a \<le> 3" using e p(13) by simp_all
  have a3: "a = 3" if "3 \<le> e" using that p(13) by simp
  have ae: "a = e" if "e < 3" using that p(13) by simp
  have doy: "0 \<le> doy" "doy \<le> 365"
    using dq p(11,12,14) a3 ae by (cases "3 \<le> e"; simp; linarith)+
  have mp: "0 \<le> mp" "mp \<le> 11" using doy p(15,16) by linarith+
  have y: "y = era * 400 + c * 100 + q * 4 + a + (if 10 \<le> mp then 1 else 0)"
    using assms(1) civil mp by (simp split: if_splits)
  have lower: "0 \<le> y"
  proof (cases "0 \<le> era")
    case True
    with y c q a show ?thesis by (simp split: if_splits)
  next
    case False
    with era have era1: "era = - 1" by linarith
    with p(1,2,3) assms(2) have doe': "146037 \<le> doe" by linarith
    with p(5) have "3 \<le> cc" by linarith
    then have c': "c = 3" by (rule c3)
    with doe' p(7) have dc': "36465 \<le> dc" by linarith
    with p(9) q have q': "q = 24" by linarith
    with dc' p(10) have dq': "1401 \<le> dq" by linarith
    with p(12) have "3 \<le> e" by linarith
    then have a': "a = 3" by (rule a3)
    with dq' p(14) have "306 \<le> doy" by linarith
    with p(16) have "10 \<le> mp" by linarith
    with y era1 c' q' a' show ?thesis by simp
  qed
  have upper: "y \<le> 9999"
  proof (cases "era \<le> 23")
    case True
    with y c q a show ?thesis by (simp split: if_splits)
  next
    case False
    with era have era24: "era = 24" by linarith
    show ?thesis
    proof (cases "10 \<le> mp")
      case False
      with y era24 c q a show ?thesis by simp
    next
      case True
      with p(15) have doy': "306 \<le> doy" by linarith
      have "c * 100 + q * 4 + a \<le> 398"
      proof (rule ccontr)
        assume "\<not> c * 100 + q * 4 + a \<le> 398"
        with c q a have c': "c = 3" and q': "q = 24" and a': "a = 3" by linarith+
        from a' doy' p(14) have "1401 \<le> dq" by linarith
        with q' p(10) have "36465 \<le> dc" by linarith
        with c' p(7) have "146037 \<le> doe" by linarith
        with era24 p(3) assms(3) show False by linarith
      qed
      with y era24 True show ?thesis by simp
    qed
  qed
  from lower upper show ?thesis ..
qed


lemma showNat_length: "n < 10 ^ Suc k \<Longrightarrow> length (showNat n) \<le> Suc k"
proof (induction k arbitrary: n)
  case 0
  then show ?case by (simp add: showNat.simps [of n])
next
  case (Suc k)
  show ?case
  proof (cases "n < 10")
    case True
    then show ?thesis by (simp add: showNat.simps [of n])
  next
    case False
    from Suc.prems have "n div 10 < 10 ^ Suc k" by simp
    then have "length (showNat (n div 10)) \<le> Suc k" by (rule Suc.IH)
    with False show ?thesis by (simp add: showNat.simps [of n])
  qed
qed

lemma showInt_length:
  assumes "0 \<le> i" and "i < 10 ^ Suc k"
  shows "length (showInt i) \<le> Suc k"
proof -
  from assms have "nat i < 10 ^ Suc k"
    by (metis nat_less_iff of_nat_numeral of_nat_power)
  then show ?thesis using assms(1) by (simp add: showInt_def showNat_length del: power_Suc)
qed

lemma padStart_length: "length s \<le> k \<Longrightarrow> length (padStart k s) = k"
  by (simp add: padStart_def)

lemma take_date:
  assumes "length ys = 4" and "length ms = 2" and "length ds = 2"
  shows "take 10 ((ys @ ''-'' @ ms @ ''-'' @ ds) @ rest) = ys @ ''-'' @ ms @ ''-'' @ ds"
  using assms by simp

lemma specLocalDateKey_sample: "specLocalDateKey (- 300) 1704169800000 = ''2024-01-01''"
  by code_simp

text \<open>
  Claim C9 says that \<open>getTodayKey()\<close> gives the calendar day of the instant in the
  device's local time zone. \<open>toISOString()\<close> renders the instant in UTC: at
  2024-01-02T04:30:00Z a device five hours behind UTC is still on 2024-01-01, and the
  key is \<open>2024-01-02\<close>.
\<close>

theorem local_day_key_counterexample:
  "getTodayKey 1704169800000 = ''2024-01-02''
   \<and> specLocalDateKey (- 300) 1704169800000 = ''2024-01-01''
   \<and> getTodayKey 1704169800000 \<noteq> specLocalDateKey (- 300) 1704169800000"
  by (simp add: getTodayKey_sample specLocalDateKey_sample)

text \<open>
  Claim C9, amended: the date key is the calendar day of the instant in UTC. For every
  instant from 0000-01-01T00:00:00Z up to the end of the year 9999, \<open>getTodayKey\<close>
  returns the \<open>YYYY-MM-DD\<close> string of the day that a zone at offset zero is in.
\<close>

theorem getTodayKey_is_utc_day:
  assumes "- 62167219200000 \<le> now" and "now < 253402300800000"
  shows "getTodayKey now = specLocalDateKey 0 now"
proof -
  define z0 where "z0 = now div 86400000"
  obtain y m d where civil: "civilFromDays z0 = (y, m, d)"
    by (cases "civilFromDays z0")
  have "86400000 * z0 \<le> now" "now < 86400000 * z0 + 86400000"
    unfolding z0_def by (rule div_bounds; simp)+
  with assms have "- 719528 \<le> z0" "z0 \<le> 2932896" by linarith+
  with civil have y: "0 \<le> y \<and> y \<le> 9999" by (rule civilFromDays_year)
  from civil have md: "1 \<le> m \<and> m \<le> 12 \<and> 1 \<le> d \<and> d \<le> 31"
    by (rule civilFromDays_month_day)
  have "length (showInt y) \<le> Suc 3" using y by (intro showInt_length) simp_all
  then have ly: "length (padStart 4 (showInt y)) = 4" by (intro padStart_length) simp
  have "length (showInt m) \<le> Suc 1" using md by (intro showInt_length) simp_all
  then have lm: "length (padStart 2 (showInt m)) = 2" by (intro padStart_length) simp
  have "length (showInt d) \<le> Suc 1" using md by (intro showInt_length) simp_all
  then have ld: "length (padStart 2 (showInt d)) = 2" by (intro padStart_length) simp
  have "getTodayKey now =
          take 10 ((padStart 4 (showInt y) @ ''-'' @ padStart 2 (showInt m) @ ''-'' @
                    padStart 2 (showInt d)) @ ''T'' @ isoTime now @ ''Z'')"
    using civil y by (simp add: getTodayKey_def toISOString_def isoDate_def isoYear_def z0_def)
  also have "\<dots> = padStart 4 (showInt y) @ ''-'' @ padStart 2 (showInt m) @ ''-'' @
                    padStart 2 (showInt d)"
    using ly lm ld by (rule take_date)
  also have "\<dots> = specLocalDateKey 0 now"
    using civil by (simp add: specLocalDateKey_def z0_def)
  finally show ?thesis .
qed

theorem getTodayKey_is_utc_day_witness:
  "- 62167219200000 \<le> (1704169800000 :: int) \<and> (1704169800000 :: int) < 253402300800000
   \<and> getTodayKey 1704169800000 = specLocalDateKey 0 1704169800000
   \<and> getTodayKey 1704169800000 = ''2024-01-02''"
  using getTodayKey_is_utc_day [of 1704169800000] by (simp add: getTodayKey_sample)

end
